theory Spec2Isabelle
  imports Main "HOL-Library.Word" "HOL-Library.Sublist"
begin

unbundle bit_operations_syntax

section \<open>canping168: a CAN responder on the ATmega168 and the MCP2515\<close>

text \<open>
  The program is one C file, \<^verbatim>\<open>main.c\<close>. It has two entry points: \<^verbatim>\<open>main\<close>, which
  configures the microcontroller and the CAN controller and then spins, and the interrupt
  service routine \<^verbatim>\<open>ISR (INT0_vect)\<close>, which answers a received frame.

  Everything either of them does is a write to a device register of the microcontroller or
  a call of the SPI library (\<^verbatim>\<open>spi.h\<close>), of \<^verbatim>\<open>printf\<close> or of \<^verbatim>\<open>sei\<close>. The model keeps
  the registers the program writes as fields of a record and records every call as an event
  of a trace, in program order: the trace is what a simulated transport would log.
\<close>

subsection \<open>Machine state and events\<close>

type_synonym byte = "8 word"

text \<open>
  \<^verbatim>\<open>spi_slave_desc_t\<close>, the descriptor handed to \<^verbatim>\<open>spi_setup_slave\<close>. The port is kept by
  name; the two delays are the literals \<^verbatim>\<open>500.0\<close> of the source, kept as whole numbers.
\<close>

record spi_slave_desc_t =
  port :: string
  pin :: nat
  select_delay :: nat
  deselect_delay :: nat

text \<open>
  One event per library call. \<open>Getch b\<close> is a call of \<^verbatim>\<open>spi_getch\<close> that returned \<open>b\<close>;
  \<open>Printf fmt args\<close> is a call of \<^verbatim>\<open>printf\<close> with its format string and its arguments.
\<close>

datatype event =
    SpiInit
  | SpiSetupSlave nat spi_slave_desc_t
  | Select nat
  | Deselect nat
  | Putch byte
  | Getch byte
  | Printf string "byte list"

text \<open>
  The registers \<^verbatim>\<open>main\<close> writes, the global interrupt enable bit of the status register,
  whether \<^verbatim>\<open>stdout\<close> has been tied to the USART stream, and the trace.
\<close>

record mstate =
  UBRR0 :: "16 word"
  UCSR0B :: byte
  DDRB :: byte
  EIMSK :: byte
  SREG_I :: bool
  stdout_tied :: bool
  trace :: "event list"

text \<open>
  Bit numbers of the ATmega168, from the device header of the C library (\<^verbatim>\<open>avr/io.h\<close>),
  and the macro \<^verbatim>\<open>_BV\<close>.
\<close>

definition RXEN0 :: nat where "RXEN0 = 4"
definition TXEN0 :: nat where "TXEN0 = 3"
definition PB2 :: nat where "PB2 = 2"
definition INT0 :: nat where "INT0 = 0"

definition BV :: "nat \<Rightarrow> byte" where
  "BV n = push_bit n 1"

text \<open>
  The state after a hardware reset: registers cleared, global interrupts disabled, nothing
  logged.
\<close>

definition reset_state :: mstate where
  "reset_state = \<lparr>UBRR0 = 0, UCSR0B = 0, DDRB = 0, EIMSK = 0, SREG_I = False,
     stdout_tied = False, trace = []\<rparr>"

subsection \<open>Library calls\<close>

definition emit :: "event \<Rightarrow> mstate \<Rightarrow> mstate" where
  "emit e s = s\<lparr>trace := trace s @ [e]\<rparr>"

definition spi_init :: "mstate \<Rightarrow> mstate" where
  "spi_init = emit SpiInit"

definition spi_setup_slave :: "nat \<Rightarrow> spi_slave_desc_t \<Rightarrow> mstate \<Rightarrow> mstate" where
  "spi_setup_slave n d = emit (SpiSetupSlave n d)"

definition spi_slave_select :: "nat \<Rightarrow> mstate \<Rightarrow> mstate" where
  "spi_slave_select n = emit (Select n)"

definition spi_slave_deselect :: "nat \<Rightarrow> mstate \<Rightarrow> mstate" where
  "spi_slave_deselect n = emit (Deselect n)"

definition spi_putch :: "byte \<Rightarrow> mstate \<Rightarrow> mstate" where
  "spi_putch b = emit (Putch b)"

text \<open>
  \<^verbatim>\<open>spi_getch\<close> returns the byte the peer shifts out. That byte is an input of the model:
  the first argument.
\<close>

definition spi_getch :: "byte \<Rightarrow> mstate \<Rightarrow> byte \<times> mstate" where
  "spi_getch rx s = (rx, emit (Getch rx) s)"

definition printf :: "string \<Rightarrow> byte list \<Rightarrow> mstate \<Rightarrow> mstate" where
  "printf fmt args = emit (Printf fmt args)"

definition sei :: "mstate \<Rightarrow> mstate" where
  "sei s = s\<lparr>SREG_I := True\<rparr>"

definition nl :: string where
  "nl = [CHR 0x0A]"

subsection \<open>The interrupt service routine\<close>

text \<open>
  \<^verbatim>\<open>ISR (INT0_vect)\<close>. \<open>rx\<close> is the byte its one call of \<^verbatim>\<open>spi_getch\<close> returns. The local
  \<^verbatim>\<open>data\<close> is a \<^verbatim>\<open>uint8_t\<close>, so \<^verbatim>\<open>++data\<close> is addition in \<open>8 word\<close>.
\<close>

definition ISR_INT0 :: "byte \<Rightarrow> mstate \<Rightarrow> mstate" where
  "ISR_INT0 rx s0 =
    (let s = printf (''INT0: Entering ISR.'' @ nl) [] s0;

         s = spi_slave_select 0 s;
         s = spi_putch 0x92 s;
         (data, s) = spi_getch rx s;
         s = spi_slave_deselect 0 s;

         s = printf (''INT0: Received data value 0x%02X.'' @ nl) [data] s;

         s = spi_slave_select 0 s;
         s = spi_putch 0x02 s;
         s = spi_putch 0x31 s;
         s = spi_putch 0x00 s;
         s = spi_putch 0xE0 s;
         s = spi_putch 0x00 s;
         s = spi_putch 0x00 s;
         s = spi_putch 0x01 s;
         data = data + 1;
         s = spi_putch data s;
         s = spi_slave_deselect 0 s;

         s = spi_slave_select 0 s;
         s = spi_putch 0x81 s;
         s = spi_slave_deselect 0 s;

         s = printf (''INT0: Replied with 0x%02X.'' @ nl) [data] s;
         s = printf (''INT0: Leaving ISR.'' @ nl) [] s
     in s)"

subsection \<open>The main program\<close>

definition mcp2515_desc :: spi_slave_desc_t where
  "mcp2515_desc = \<lparr>port = ''PORTB'', pin = PB2, select_delay = 500, deselect_delay = 500\<rparr>"

text \<open>
  The statements of \<^verbatim>\<open>main\<close> in program order, in three parts: the configuration of the
  USART and of the microcontroller, the configuration of the MCP2515, and what follows it up
  to the final loop. Each statement is a state transformer.
\<close>

definition main_mcu :: "(mstate \<Rightarrow> mstate) list" where
  "main_mcu =
    [ (\<lambda>s. s\<lparr>UBRR0 := 16\<rparr>),
      (\<lambda>s. s\<lparr>UCSR0B := BV RXEN0 OR BV TXEN0\<rparr>),
      (\<lambda>s. s\<lparr>stdout_tied := True\<rparr>),

      printf (''Main: Hello, world!'' @ nl) [],

      printf ''Main: Configuring MCU... '' [],

      (\<lambda>s. s\<lparr>DDRB := DDRB s OR BV PB2\<rparr>),
      (\<lambda>s. s\<lparr>EIMSK := EIMSK s OR BV INT0\<rparr>),

      spi_init,
      spi_setup_slave 0 mcp2515_desc,

      printf (''done.'' @ nl) [] ]"

definition main_mcp2515 :: "(mstate \<Rightarrow> mstate) list" where
  "main_mcp2515 =
    [ printf ''Main: Configuring MCP2515... '' [],

      spi_slave_select 0,
      spi_putch 0xC0,
      spi_slave_deselect 0,

      spi_slave_select 0,
      spi_putch 0x02,
      spi_putch 0x28,
      spi_putch 0x03,
      spi_putch 0x9E,
      spi_putch 0x08,
      spi_slave_deselect 0,

      spi_slave_select 0,
      spi_putch 0x02,
      spi_putch 0x2B,
      spi_putch 0x01,
      spi_slave_deselect 0,

      spi_slave_select 0,
      spi_putch 0x02,
      spi_putch 0x60,
      spi_putch 0x60,
      spi_slave_deselect 0,

      spi_slave_select 0,
      spi_putch 0x02,
      spi_putch 0x0F,
      spi_putch 0x00,
      spi_slave_deselect 0,

      printf (''done.'' @ nl) [] ]"

definition main_wait :: "(mstate \<Rightarrow> mstate) list" where
  "main_wait =
    [ sei,
      printf (''Main: Entering main wait loop.'' @ nl) [] ]"

definition main_body :: "(mstate \<Rightarrow> mstate) list" where
  "main_body = main_mcu @ main_mcp2515 @ main_wait"

text \<open>Running a list of statements one after the other.\<close>

definition run :: "(mstate \<Rightarrow> mstate) list \<Rightarrow> mstate \<Rightarrow> mstate" where
  "run stmts s = fold (\<lambda>stmt. stmt) stmts s"

text \<open>
  \<^verbatim>\<open>main\<close> up to the point where it enters \<^verbatim>\<open>for (;;) ;\<close>. The loop has an empty body
  and no exit: \<^verbatim>\<open>main\<close> never returns, and once it is in the loop it changes nothing.
\<close>

definition main_startup :: "mstate \<Rightarrow> mstate" where
  "main_startup s = run main_body s"

subsection \<open>The main program and the interrupt together\<close>

text \<open>
  The configurations of the whole system are pairs of the position of \<^verbatim>\<open>main\<close> (the
  number of statements it has executed) and the machine state.
  \<^item> \<open>boot\<close>: the machine leaves reset at the first statement of \<^verbatim>\<open>main\<close>.
  \<^item> \<open>main_next\<close>: \<^verbatim>\<open>main\<close> executes its next statement.
  \<^item> \<open>main_idle\<close>: \<^verbatim>\<open>main\<close> is in \<^verbatim>\<open>for (;;) ;\<close> and goes round once more.
  \<^item> \<open>int0\<close>: the external interrupt is taken. The hardware takes it only while the global
    interrupt enable bit and the INT0 bit of the interrupt mask are both set, and it keeps
    further interrupts off until the routine returns, so the routine runs as one step.
    The byte \<open>rx\<close> the controller answers with is arbitrary.
\<close>

inductive reachable :: "nat \<times> mstate \<Rightarrow> bool" where
  boot: "reachable (0, reset_state)"
| main_next: "reachable (pc, s) \<Longrightarrow> pc < length main_body \<Longrightarrow>
     reachable (Suc pc, (main_body ! pc) s)"
| main_idle: "reachable (pc, s) \<Longrightarrow> pc = length main_body \<Longrightarrow> reachable (pc, s)"
| int0: "reachable (pc, s) \<Longrightarrow> SREG_I s \<Longrightarrow> bit (EIMSK s) INT0 \<Longrightarrow>
     reachable (pc, ISR_INT0 rx s)"

subsection \<open>Reading a trace as transport transactions\<close>

text \<open>
  An exchange of a transaction is a byte sent with \<^verbatim>\<open>spi_putch\<close> or a byte received with
  \<^verbatim>\<open>spi_getch\<close>. A transaction is the selected device with the exchanges made while it
  was selected.
\<close>

datatype xfer = Tx byte | Rx byte

type_synonym transaction = "nat \<times> xfer list"

text \<open>
  \<open>scan\<close> reads a trace from left to right and splits it into transactions. Its first
  argument is the transaction that is open, if any. It fails (\<open>None\<close>) on a select while a
  device is selected, on a deselect or an exchange while none is, on a deselect of another
  device than the selected one, on a transaction without exchanges, and on a trace that ends
  with a device selected. Events that are no transport calls are passed over.
\<close>

fun scan :: "transaction option \<Rightarrow> event list \<Rightarrow> transaction list option" where
  "scan None [] = Some []"
| "scan (Some t) [] = None"
| "scan None (Select d # es) = scan (Some (d, [])) es"
| "scan (Some t) (Select d # es) = None"
| "scan None (Deselect d # es) = None"
| "scan (Some (d', xs)) (Deselect d # es) =
     (if d = d' \<and> xs \<noteq> [] then map_option (\<lambda>ts. (d', xs) # ts) (scan None es) else None)"
| "scan None (Putch b # es) = None"
| "scan (Some (d, xs)) (Putch b # es) = scan (Some (d, xs @ [Tx b])) es"
| "scan None (Getch b # es) = None"
| "scan (Some (d, xs)) (Getch b # es) = scan (Some (d, xs @ [Rx b])) es"
| "scan t (SpiInit # es) = scan t es"
| "scan t (SpiSetupSlave n d # es) = scan t es"
| "scan t (Printf fmt args # es) = scan t es"

definition transactions :: "event list \<Rightarrow> transaction list option" where
  "transactions es = scan None es"

text \<open>The transport calls of a trace, and the events a run added to a trace.\<close>

fun is_spi :: "event \<Rightarrow> bool" where
  "is_spi (Select d) = True"
| "is_spi (Deselect d) = True"
| "is_spi (Putch b) = True"
| "is_spi (Getch b) = True"
| "is_spi e = False"

definition bus :: "event list \<Rightarrow> event list" where
  "bus es = filter is_spi es"

definition new_events :: "mstate \<Rightarrow> mstate \<Rightarrow> event list" where
  "new_events s s' = drop (length (trace s)) (trace s')"

text \<open>The bytes a transaction sends, in order.\<close>

fun sent :: "xfer list \<Rightarrow> byte list" where
  "sent [] = []"
| "sent (Tx b # xs) = b # sent xs"
| "sent (Rx b # xs) = sent xs"

text \<open>
  The commands of the handler and of the startup sequence: the transactions of the events
  they add, from any state.
\<close>

definition handler_commands :: "byte \<Rightarrow> mstate \<Rightarrow> transaction list option" where
  "handler_commands rx s = transactions (new_events s (ISR_INT0 rx s))"

definition startup_commands :: "mstate \<Rightarrow> transaction list option" where
  "startup_commands s = transactions (new_events s (main_startup s))"


definition nth_command :: "nat \<Rightarrow> transaction list option \<Rightarrow> transaction option" where
  "nth_command n cs =
     (case cs of None \<Rightarrow> None | Some ts \<Rightarrow> if n < length ts then Some (ts ! n) else None)"

fun exchanges :: "transaction option \<Rightarrow> xfer list" where
  "exchanges None = []"
| "exchanges (Some (d, xs)) = xs"

text \<open>
  The bytes the handler sends in its second command, the one the source calls
  \<^verbatim>\<open>load transmit buffer\<close>.
\<close>

definition load_tx_bytes :: "byte \<Rightarrow> mstate \<Rightarrow> byte list" where
  "load_tx_bytes rx s = sent (exchanges (nth_command 1 (handler_commands rx s)))"

text \<open>
  The transport calls of the whole startup sequence and of one run of the handler.
\<close>

definition startup_bus :: "event list" where
  "startup_bus = bus (trace (main_startup reset_state))"

definition handler_bus :: "byte \<Rightarrow> event list" where
  "handler_bus rx = bus (new_events reset_state (ISR_INT0 rx reset_state))"

subsection \<open>The controller's side of a command\<close>

text \<open>
  The program only sends bytes; what they mean is the controller's business. Three facts
  about the controller are used to state claims, and each is kept apart from the model of
  the program.

  A write command is the opcode \<^verbatim>\<open>0x02\<close>, a starting address, and one or more values
  that go to consecutive registers from that address on. \<^verbatim>\<open>main\<close> uses the opcode in
  this way four times: the byte after \<^verbatim>\<open>0x02\<close> is the address of the bit timing, the
  interrupt enable and the mode register, and the bytes after it are the values.
  \<open>registers_written\<close> gives the registers a transaction writes in this way, with their
  values, in order.
\<close>

fun consecutive :: "byte \<Rightarrow> byte list \<Rightarrow> (byte \<times> byte) list" where
  "consecutive a [] = []"
| "consecutive a (v # vs) = (a, v) # consecutive (a + 1) vs"

fun registers_written :: "xfer list \<Rightarrow> (byte \<times> byte) list" where
  "registers_written (Tx opcode # Tx a # xs) =
     (if opcode = 0x02 then consecutive a (sent xs) else [])"
| "registers_written xs = []"

text \<open>
  A standard identifier has eleven bits. The controller keeps the upper eight in the first
  identifier byte and the lower three in the top three bits of the second: the source
  comments the second byte \<^verbatim>\<open>0xE0\<close> as \<^verbatim>\<open>SID address 0x07\<close>.
\<close>

definition sid_of :: "byte \<Rightarrow> byte \<Rightarrow> 11 word" where
  "sid_of sidh sidl = push_bit 3 (ucast sidh) OR ucast (drop_bit 5 sidl)"

subsection \<open>Shapes the specification describes\<close>

text \<open>
  The specification describes a bit-modify command as an opcode, an address, a mask and a
  value: four bytes sent, nothing received.
\<close>

fun spec_bit_modify_shape :: "xfer list \<Rightarrow> bool" where
  "spec_bit_modify_shape [Tx opcode, Tx addr, Tx msk, Tx val] = True"
| "spec_bit_modify_shape xs = False"

text \<open>
  The specification describes the values of the frame descriptor in this order: a control
  byte, the extended identifier high byte, which is zero, the standard identifier fields, the
  data length code, which is one, and the payload byte. \<open>spec_descriptor_order\<close> holds of
  a list of values laid out like that, with any number of standard identifier fields from
  one on.
\<close>

fun spec_descriptor_order :: "byte list \<Rightarrow> bool" where
  "spec_descriptor_order (ctrl # eidh # rest) =
     (eidh = 0 \<and> 3 \<le> length rest \<and> rev rest ! 1 = 1)"
| "spec_descriptor_order vs = False"

subsection \<open>An invariant of the whole system\<close>

text \<open>The number of statements of \<^verbatim>\<open>main\<close> before \<^verbatim>\<open>sei ()\<close>.\<close>

definition sei_at :: nat where
  "sei_at = length main_mcu + length main_mcp2515"

text \<open>
  Up to \<^verbatim>\<open>sei ()\<close> no interrupt has been taken, so the state is the one \<^verbatim>\<open>main\<close> alone
  has produced. After it the transport has seen the whole startup sequence and then whole
  runs of the handler.
\<close>

definition startup_inv :: "nat \<times> mstate \<Rightarrow> bool" where
  "startup_inv c = (case c of (pc, s) \<Rightarrow> pc \<le> length main_body \<and>
     (if pc \<le> sei_at then s = run (take pc main_body) reset_state
      else SREG_I s \<and> (\<exists>rxs. bus (trace s) = startup_bus @ concat (map handler_bus rxs))))"

section \<open>Effects of the two routines\<close>

lemma trace_emit [simp]: "trace (emit e s) = trace s @ [e]"
  by (simp add: emit_def)

lemma ISR_INT0_eq:
  "ISR_INT0 rx s = s\<lparr>trace := trace s @
     [Printf (''INT0: Entering ISR.'' @ nl) [],
      Select 0, Putch 0x92, Getch rx, Deselect 0,
      Printf (''INT0: Received data value 0x%02X.'' @ nl) [rx],
      Select 0, Putch 0x02, Putch 0x31, Putch 0x00, Putch 0xE0, Putch 0x00, Putch 0x00,
      Putch 0x01, Putch (rx + 1), Deselect 0,
      Select 0, Putch 0x81, Deselect 0,
      Printf (''INT0: Replied with 0x%02X.'' @ nl) [rx + 1],
      Printf (''INT0: Leaving ISR.'' @ nl) []]\<rparr>"
  by (simp add: ISR_INT0_def Let_def printf_def spi_slave_select_def spi_putch_def
      spi_getch_def spi_slave_deselect_def emit_def)

lemmas call_defs = printf_def spi_init_def spi_setup_slave_def spi_slave_select_def
  spi_putch_def spi_slave_deselect_def emit_def sei_def

lemma main_startup_eq:
  "main_startup s = s\<lparr>UBRR0 := 16, UCSR0B := 0x18, DDRB := DDRB s OR 0x04,
     EIMSK := EIMSK s OR 0x01, SREG_I := True, stdout_tied := True,
     trace := trace s @
     [Printf (''Main: Hello, world!'' @ nl) [],
      Printf ''Main: Configuring MCU... '' [],
      SpiInit, SpiSetupSlave 0 mcp2515_desc,
      Printf (''done.'' @ nl) [],
      Printf ''Main: Configuring MCP2515... '' [],
      Select 0, Putch 0xC0, Deselect 0,
      Select 0, Putch 0x02, Putch 0x28, Putch 0x03, Putch 0x9E, Putch 0x08, Deselect 0,
      Select 0, Putch 0x02, Putch 0x2B, Putch 0x01, Deselect 0,
      Select 0, Putch 0x02, Putch 0x60, Putch 0x60, Deselect 0,
      Select 0, Putch 0x02, Putch 0x0F, Putch 0x00, Deselect 0,
      Printf (''done.'' @ nl) [],
      Printf (''Main: Entering main wait loop.'' @ nl) []]\<rparr>"
  by (simp add: main_startup_def run_def main_body_def main_mcu_def main_mcp2515_def
      main_wait_def call_defs BV_def RXEN0_def TXEN0_def PB2_def INT0_def)

lemma scan_append:
  "scan st xs = Some ts \<Longrightarrow>
   scan st (xs @ ys) = (case scan None ys of None \<Rightarrow> None | Some us \<Rightarrow> Some (ts @ us))"
proof (induction st xs arbitrary: ts rule: scan.induct)
  case (6 d' xs d es)
  then show ?case
    by (auto split: if_splits option.splits)
qed (auto split: option.splits)

lemma new_events_append [simp]: "new_events s (s'\<lparr>trace := trace s @ es\<rparr>) = es"
  by (simp add: new_events_def)

lemma startup_commands_eq:
  "startup_commands s = Some
     [(0, [Tx 0xC0]),
      (0, [Tx 0x02, Tx 0x28, Tx 0x03, Tx 0x9E, Tx 0x08]),
      (0, [Tx 0x02, Tx 0x2B, Tx 0x01]),
      (0, [Tx 0x02, Tx 0x60, Tx 0x60]),
      (0, [Tx 0x02, Tx 0x0F, Tx 0x00])]"
  by (simp add: startup_commands_def main_startup_eq transactions_def)

lemma handler_commands_eq:
  "handler_commands rx s = Some
     [(0, [Tx 0x92, Rx rx]),
      (0, [Tx 0x02, Tx 0x31, Tx 0x00, Tx 0xE0, Tx 0x00, Tx 0x00, Tx 0x01, Tx (rx + 1)]),
      (0, [Tx 0x81])]"
  by (simp add: handler_commands_def ISR_INT0_eq transactions_def)


section \<open>The startup sequence and the interrupt\<close>

lemma run_Nil [simp]: "run [] s = s"
  by (simp add: run_def)

lemma run_Cons [simp]: "run (f # fs) s = run fs (f s)"
  by (simp add: run_def)

lemma run_append [simp]: "run (fs @ gs) s = run gs (run fs s)"
  by (simp add: run_def)

lemma run_take_Suc:
  "pc < length fs \<Longrightarrow> run (take (Suc pc) fs) s = (fs ! pc) (run (take pc fs) s)"
  by (simp add: take_Suc_conv_app_nth)

lemma length_main_mcu: "length main_mcu = 10"
  by (simp add: main_mcu_def)

lemma length_main_mcp2515: "length main_mcp2515 = 27"
  by (simp add: main_mcp2515_def)

lemma length_main_body: "length main_body = 39"
  by (simp add: main_body_def length_main_mcu length_main_mcp2515 main_wait_def)

lemma sei_at_eq: "sei_at = 37"
  by (simp add: sei_at_def length_main_mcu length_main_mcp2515)

lemma main_body_sei: "main_body ! 37 = sei"
  by (simp add: main_body_def nth_append length_main_mcu length_main_mcp2515 main_wait_def)

lemma main_body_last: "main_body ! 38 = printf (''Main: Entering main wait loop.'' @ nl) []"
  by (simp add: main_body_def nth_append length_main_mcu length_main_mcp2515 main_wait_def)

lemma take_main_body:
  "pc \<le> 37 \<Longrightarrow> take pc main_body = take pc (main_mcu @ main_mcp2515)"
  by (simp add: main_body_def length_main_mcu length_main_mcp2515)

text \<open>Statements that leave the interrupt enable bit alone.\<close>

lemma run_keeps_I:
  "list_all (\<lambda>f. \<forall>s. SREG_I (f s) = SREG_I s) fs \<Longrightarrow> SREG_I (run fs s) = SREG_I s"
  by (induction fs arbitrary: s) simp_all

lemma config_keeps_I:
  "list_all (\<lambda>f. \<forall>s. SREG_I (f s) = SREG_I s) (main_mcu @ main_mcp2515)"
  by (simp add: main_mcu_def main_mcp2515_def call_defs)

lemma before_sei_off:
  assumes "pc \<le> 37"
  shows "\<not> SREG_I (run (take pc main_body) reset_state)"
proof -
  have "list_all (\<lambda>f. \<forall>s. SREG_I (f s) = SREG_I s) (take pc (main_mcu @ main_mcp2515))"
    using config_keeps_I by (auto simp: list_all_iff dest: in_set_takeD)
  then have "SREG_I (run (take pc main_body) reset_state) = SREG_I reset_state"
    using assms by (simp add: take_main_body run_keeps_I)
  then show ?thesis by (simp add: reset_state_def)
qed

text \<open>Statements only ever add to the trace.\<close>

lemma run_extends:
  "list_all (\<lambda>f. \<forall>s. prefix (trace s) (trace (f s))) fs \<Longrightarrow> prefix (trace s) (trace (run fs s))"
proof (induction fs arbitrary: s)
  case Nil
  then show ?case by simp
next
  case (Cons f fs)
  then have "prefix (trace s) (trace (f s))" and "prefix (trace (f s)) (trace (run fs (f s)))"
    by simp_all
  then show ?case by (auto intro: prefix_order.trans)
qed

lemma main_body_extends:
  "list_all (\<lambda>f. \<forall>s. prefix (trace s) (trace (f s))) main_body"
  by (simp add: main_body_def main_mcu_def main_mcp2515_def main_wait_def call_defs)

lemma bus_prefix: "prefix xs ys \<Longrightarrow> prefix (bus xs) (bus ys)"
  by (auto simp: bus_def prefix_def)

lemma during_startup_prefix:
  "prefix (bus (trace (run (take pc main_body) reset_state))) startup_bus"
proof -
  have "list_all (\<lambda>f. \<forall>s. prefix (trace s) (trace (f s))) (drop pc main_body)"
    using main_body_extends by (auto simp: list_all_iff dest: in_set_dropD)
  then have "prefix (trace (run (take pc main_body) reset_state))
      (trace (run (drop pc main_body) (run (take pc main_body) reset_state)))"
    by (rule run_extends)
  moreover have "run (drop pc main_body) (run (take pc main_body) reset_state)
      = main_startup reset_state"
    unfolding main_startup_def run_append [symmetric] by simp
  ultimately show ?thesis
    by (simp add: startup_bus_def bus_prefix)
qed

lemma startup_bus_eq:
  "startup_bus =
     [Select 0, Putch 0xC0, Deselect 0,
      Select 0, Putch 0x02, Putch 0x28, Putch 0x03, Putch 0x9E, Putch 0x08, Deselect 0,
      Select 0, Putch 0x02, Putch 0x2B, Putch 0x01, Deselect 0,
      Select 0, Putch 0x02, Putch 0x60, Putch 0x60, Deselect 0,
      Select 0, Putch 0x02, Putch 0x0F, Putch 0x00, Deselect 0]"
  by (simp add: startup_bus_def main_startup_eq bus_def reset_state_def)

lemma after_sei:
  "SREG_I (run (take 38 main_body) reset_state) \<and>
   bus (trace (run (take 38 main_body) reset_state)) = startup_bus"
  unfolding startup_bus_eq
  by (simp add: main_body_def main_mcu_def main_mcp2515_def main_wait_def call_defs
      bus_def reset_state_def)

lemma bus_ISR_INT0: "bus (trace (ISR_INT0 rx s)) = bus (trace s) @ handler_bus rx"
  by (simp add: ISR_INT0_eq handler_bus_def bus_def)

lemma SREG_I_ISR_INT0: "SREG_I (ISR_INT0 rx s) = SREG_I s"
  by (simp add: ISR_INT0_eq)

lemma reachable_inv: "reachable c \<Longrightarrow> startup_inv c"
proof (induction rule: reachable.induct)
  case boot
  show ?case by (simp add: startup_inv_def)
next
  case (main_next pc s)
  then have pc: "pc < 39" by (simp add: length_main_body)
  consider "pc < 37" | "pc = 37" | "pc = 38" using pc by linarith
  then show ?case
  proof cases
    case 1
    with main_next show ?thesis
      by (simp add: startup_inv_def sei_at_eq length_main_body run_take_Suc)
  next
    case 2
    with main_next have s: "s = run (take 37 main_body) reset_state"
      by (simp add: startup_inv_def sei_at_eq)
    have *: "(main_body ! 37) s = run (take 38 main_body) reset_state"
      using run_take_Suc [of 37 main_body reset_state] s by (simp add: length_main_body)
    have "\<exists>rxs. bus (trace ((main_body ! 37) s)) = startup_bus @ concat (map handler_bus rxs)"
      using after_sei * by (intro exI [of _ "[]"]) simp
    moreover have "SREG_I ((main_body ! 37) s)"
      using after_sei * by simp
    ultimately show ?thesis
      using 2 by (simp add: startup_inv_def sei_at_eq length_main_body)
  next
    case 3
    with main_next obtain rxs where "SREG_I s"
      and "bus (trace s) = startup_bus @ concat (map handler_bus rxs)"
      by (auto simp: startup_inv_def sei_at_eq)
    with 3 show ?thesis
      by (auto simp: startup_inv_def sei_at_eq length_main_body main_body_last call_defs bus_def)
  qed
next
  case (main_idle pc s)
  then show ?case by simp
next
  case (int0 pc s rx)
  show ?case
  proof (cases "pc \<le> 37")
    case True
    with int0 have "s = run (take pc main_body) reset_state"
      by (simp add: startup_inv_def sei_at_eq)
    with int0 before_sei_off [OF True] show ?thesis by simp
  next
    case False
    with int0 obtain rxs where "pc \<le> 39"
      and "bus (trace s) = startup_bus @ concat (map handler_bus rxs)"
      by (auto simp: startup_inv_def sei_at_eq length_main_body)
    then have "bus (trace (ISR_INT0 rx s)) = startup_bus @ concat (map handler_bus (rxs @ [rx]))"
      by (simp add: bus_ISR_INT0)
    with False int0 \<open>pc \<le> 39\<close> show ?thesis
      by (auto simp: startup_inv_def sei_at_eq length_main_body SREG_I_ISR_INT0 simp del: map_append)
  qed
qed


section \<open>Commands of the handler and of the startup sequence\<close>

lemma load_tx_bytes_eq:
  "load_tx_bytes rx s = [0x02, 0x31, 0x00, 0xE0, 0x00, 0x00, 0x01, rx + 1]"
  by (simp add: load_tx_bytes_def nth_command_def handler_commands_eq)

lemma handler_command_2: "nth_command 2 (handler_commands rx s) = Some (0, [Tx 0x81])"
  by (simp add: nth_command_def handler_commands_eq)

lemma handler_command_1:
  "nth_command 1 (handler_commands rx s) = Some
     (0, [Tx 0x02, Tx 0x31, Tx 0x00, Tx 0xE0, Tx 0x00, Tx 0x00, Tx 0x01, Tx (rx + 1)])"
  by (simp add: nth_command_def handler_commands_eq)

lemma startup_command_3:
  "nth_command 3 (startup_commands s) = Some (0, [Tx 0x02, Tx 0x60, Tx 0x60])"
  by (simp add: nth_command_def startup_commands_eq)

lemma trace_ISR_INT0:
  "trace (ISR_INT0 rx s) = trace s @ new_events reset_state (ISR_INT0 rx reset_state)"
  by (simp add: ISR_INT0_eq new_events_def reset_state_def)

lemma trace_run_ISR_INT0:
  "trace (run (map ISR_INT0 rxs) s) =
     trace s @ concat (map (\<lambda>rx. new_events reset_state (ISR_INT0 rx reset_state)) rxs)"
  by (induction rxs arbitrary: s) (simp_all add: trace_ISR_INT0)

lemma scan_handlers:
  "scan None (concat (map (\<lambda>rx. new_events reset_state (ISR_INT0 rx reset_state)) rxs)) =
     Some (concat (map (\<lambda>rx.
       [(0, [Tx 0x92, Rx rx]),
        (0, [Tx 0x02, Tx 0x31, Tx 0x00, Tx 0xE0, Tx 0x00, Tx 0x00, Tx 0x01, Tx (rx + 1)]),
        (0, [Tx 0x81])]) rxs))"
proof (induction rxs)
  case Nil
  show ?case by simp
next
  case (Cons rx rxs)
  have "scan None (new_events reset_state (ISR_INT0 rx reset_state)) = Some
       [(0, [Tx 0x92, Rx rx]),
        (0, [Tx 0x02, Tx 0x31, Tx 0x00, Tx 0xE0, Tx 0x00, Tx 0x00, Tx 0x01, Tx (rx + 1)]),
        (0, [Tx 0x81])]"
    using handler_commands_eq [of rx reset_state]
    by (simp add: handler_commands_def transactions_def)
  from scan_append [OF this] Cons show ?case by simp
qed

lemma reachable_run:
  "pc \<le> length main_body \<Longrightarrow> reachable (pc, run (take pc main_body) reset_state)"
proof (induction pc)
  case 0
  show ?case by (simp add: boot)
next
  case (Suc pc)
  then have "reachable (Suc pc, (main_body ! pc) (run (take pc main_body) reset_state))"
    by (intro main_next) simp_all
  with Suc show ?case by (simp add: run_take_Suc)
qed

lemma reachable_main_startup: "reachable (length main_body, main_startup reset_state)"
  using reachable_run [of "length main_body"] by (simp add: main_startup_def)


section \<open>Properties stated by the specification\<close>

subsection \<open>The reply payload\<close>

text \<open>
  C1. Whatever byte \<open>rx\<close> the handler reads as the first data byte, the payload byte it
  sends, the last of the eight bytes of its load command, is \<open>rx + 1\<close> in eight-bit
  arithmetic: as a number it is \<open>(rx + 1) mod 256\<close>, so that \<^verbatim>\<open>0xFF\<close> is answered with
  \<^verbatim>\<open>0x00\<close>. The state \<open>s\<close> the handler starts from does not matter.
\<close>

theorem reply_payload_increment:
  "length (load_tx_bytes rx s) = 8 \<and>
   load_tx_bytes rx s ! 7 = rx + 1 \<and>
   unat (load_tx_bytes rx s ! 7) = (unat rx + 1) mod 256 \<and>
   load_tx_bytes 0xFF s ! 7 = 0x00"
  by (simp add: load_tx_bytes_eq unat_word_ariths)

subsection \<open>The reply identifier\<close>

text \<open>
  C2. In every run of the handler, whatever byte it received and from whatever state, the
  two standard identifier bytes of the load command are the constants \<^verbatim>\<open>0x00\<close> and
  \<^verbatim>\<open>0xE0\<close>, which encode the identifier \<^verbatim>\<open>0x07\<close>.
\<close>

theorem reply_identifier_fixed:
  "load_tx_bytes rx s ! 2 = 0x00 \<and>
   load_tx_bytes rx s ! 3 = 0xE0 \<and>
   sid_of (load_tx_bytes rx s ! 2) (load_tx_bytes rx s ! 3) = 0x07"
  by (simp add: load_tx_bytes_eq sid_of_def)

subsection \<open>The startup sequence\<close>

text \<open>
  C3. From any state \<open>s\<close>, the transport calls of \<^verbatim>\<open>main\<close> form exactly five
  transactions with device 0, in this order: the reset (\<^verbatim>\<open>0xC0\<close>), the write of the three
  bit timing registers from \<^verbatim>\<open>0x28\<close> on, the write of the interrupt enable register
  \<^verbatim>\<open>0x2B\<close>, the write at \<^verbatim>\<open>0x60\<close> that makes the controller accept any identifier, and
  the write of the mode register \<^verbatim>\<open>0x0F\<close>. Since \<open>scan\<close> fails on an exchange outside
  a transaction, nothing is sent to the controller before the reset.
\<close>

theorem startup_five_commands:
  "startup_commands s = Some
     [(0, [Tx 0xC0]),
      (0, [Tx 0x02, Tx 0x28, Tx 0x03, Tx 0x9E, Tx 0x08]),
      (0, [Tx 0x02, Tx 0x2B, Tx 0x01]),
      (0, [Tx 0x02, Tx 0x60, Tx 0x60]),
      (0, [Tx 0x02, Tx 0x0F, Tx 0x00])]"
  by (simp add: startup_commands_eq)

subsection \<open>The ready-to-send command\<close>

text \<open>
  C4, as stated, fails. The command with which the handler flags the buffer as ready to send
  has not the shape of a bit-modify command: for the received byte \<^verbatim>\<open>0x10\<close> the third
  command of the handler is not an opcode followed by an address, a mask and a value.
\<close>

theorem ready_to_send_not_bit_modify:
  "\<not> spec_bit_modify_shape (exchanges (nth_command 2 (handler_commands 0x10 reset_state)))"
  by (simp add: handler_command_2)

text \<open>
  C4, amended. In every run of the handler the command that flags the buffer as ready to send
  is a transaction of one byte, the opcode \<^verbatim>\<open>0x81\<close>, with no address, mask or value. It
  is the third and last command and follows the load command, which starts with \<^verbatim>\<open>0x02\<close>
  and \<^verbatim>\<open>0x31\<close>.
\<close>

theorem ready_to_send_single_opcode:
  "nth_command 2 (handler_commands rx s) = Some (0, [Tx 0x81]) \<and>
   take 2 (sent (exchanges (nth_command 1 (handler_commands rx s)))) = [0x02, 0x31] \<and>
   nth_command 3 (handler_commands rx s) = None"
  by (simp add: nth_command_def handler_commands_eq)

subsection \<open>The frame descriptor\<close>

text \<open>
  C5, as stated, fails. The load command is a write command: \<^verbatim>\<open>0x02\<close>, the starting
  address \<^verbatim>\<open>0x31\<close>, and six values. The values do not come in the order control byte,
  extended identifier high byte (zero), standard identifier fields, data length code,
  payload: for the received byte \<^verbatim>\<open>0x10\<close> the value in the second place is \<^verbatim>\<open>0xE0\<close>, not
  zero.
\<close>

theorem descriptor_not_in_spec_order:
  "\<not> spec_descriptor_order
     (map snd (registers_written (exchanges (nth_command 1 (handler_commands 0x10 reset_state)))))"
  unfolding handler_command_1 by simp

text \<open>
  C5, amended. In every run of the handler the load command is one transaction that sends
  the write opcode \<^verbatim>\<open>0x02\<close> and the starting address \<^verbatim>\<open>0x31\<close> and then six values for
  the six consecutive registers from \<^verbatim>\<open>0x31\<close> to \<^verbatim>\<open>0x36\<close>, in this order: the two
  standard identifier bytes \<^verbatim>\<open>0x00\<close> and \<^verbatim>\<open>0xE0\<close>, two extended identifier bytes, both
  zero, the data length code 1, and the payload byte. No control byte is among them.
\<close>

theorem descriptor_order:
  "load_tx_bytes rx s = [0x02, 0x31, 0x00, 0xE0, 0x00, 0x00, 0x01, rx + 1] \<and>
   registers_written (exchanges (nth_command 1 (handler_commands rx s))) =
     [(0x31, 0x00), (0x32, 0xE0), (0x33, 0x00), (0x34, 0x00), (0x35, 0x01), (0x36, rx + 1)]"
  unfolding load_tx_bytes_eq handler_command_1 by simp

subsection \<open>Bracketing\<close>

text \<open>
  C6. Take the startup sequence from any state, followed by any number of runs of the
  handler with any received bytes \<open>rxs\<close>. The events they add split into transactions: every
  select is followed by at least one exchange and then by the deselect of the same device 0,
  no select comes while the device is selected, and no exchange or deselect comes while it is
  not. The transactions are the five of the startup sequence and three for each run of the
  handler.
\<close>

theorem transport_calls_bracketed:
  "transactions (new_events s (run (map ISR_INT0 rxs) (main_startup s))) = Some
     ([(0, [Tx 0xC0]),
       (0, [Tx 0x02, Tx 0x28, Tx 0x03, Tx 0x9E, Tx 0x08]),
       (0, [Tx 0x02, Tx 0x2B, Tx 0x01]),
       (0, [Tx 0x02, Tx 0x60, Tx 0x60]),
       (0, [Tx 0x02, Tx 0x0F, Tx 0x00])] @
      concat (map (\<lambda>rx.
       [(0, [Tx 0x92, Rx rx]),
        (0, [Tx 0x02, Tx 0x31, Tx 0x00, Tx 0xE0, Tx 0x00, Tx 0x00, Tx 0x01, Tx (rx + 1)]),
        (0, [Tx 0x81])]) rxs))"
proof -
  have "trace (main_startup s) = trace s @ new_events s (main_startup s)"
    by (simp add: main_startup_eq)
  then have "trace (run (map ISR_INT0 rxs) (main_startup s)) =
      trace s @ (new_events s (main_startup s) @
      concat (map (\<lambda>rx. new_events reset_state (ISR_INT0 rx reset_state)) rxs))"
    by (simp add: trace_run_ISR_INT0)
  then have "new_events s (run (map ISR_INT0 rxs) (main_startup s)) =
      new_events s (main_startup s) @
      concat (map (\<lambda>rx. new_events reset_state (ISR_INT0 rx reset_state)) rxs)"
    unfolding new_events_def [of s "run (map ISR_INT0 rxs) (main_startup s)"] by simp
  moreover have "scan None (new_events s (main_startup s)) = Some
     [(0, [Tx 0xC0]),
      (0, [Tx 0x02, Tx 0x28, Tx 0x03, Tx 0x9E, Tx 0x08]),
      (0, [Tx 0x02, Tx 0x2B, Tx 0x01]),
      (0, [Tx 0x02, Tx 0x60, Tx 0x60]),
      (0, [Tx 0x02, Tx 0x0F, Tx 0x00])]"
    using startup_commands_eq [of s] by (simp add: startup_commands_def transactions_def)
  ultimately show ?thesis
    by (simp add: transactions_def scan_append scan_handlers)
qed

subsection \<open>The three commands of the handler\<close>

text \<open>
  C7. Every run of the handler, from any state and for any received byte, makes exactly three
  transactions. The first sends the one opcode \<^verbatim>\<open>0x92\<close>, with no address after it, and
  then receives one byte. The second is the load command and the third the ready-to-send
  command; neither receives anything. There is no fourth: in particular no command reads or
  changes the interrupt flags of the controller.
\<close>

theorem handler_three_commands:
  "handler_commands rx s = Some
     [(0, [Tx 0x92, Rx rx]),
      (0, [Tx 0x02, Tx 0x31, Tx 0x00, Tx 0xE0, Tx 0x00, Tx 0x00, Tx 0x01, Tx (rx + 1)]),
      (0, [Tx 0x81])]"
  by (simp add: handler_commands_eq)

subsection \<open>The fourth startup command\<close>

text \<open>
  C8, as stated, fails. A command that writes both the acceptance filter registers and the
  acceptance mask registers writes at least two registers. The fourth startup command does
  not.
\<close>

theorem fourth_command_not_two_registers:
  "\<not> 2 \<le> length (registers_written (exchanges (nth_command 3 (startup_commands reset_state))))"
  by (simp add: startup_command_3)

text \<open>
  C8, amended. From any state the fourth startup command is a write command with the
  starting address \<^verbatim>\<open>0x60\<close> and the one value \<^verbatim>\<open>0x60\<close>: it writes that value to the one
  register at \<^verbatim>\<open>0x60\<close> and to no other. The source gives its purpose as
  \<^verbatim>\<open>accept data from any sid\<close>.
\<close>

theorem fourth_command_one_register:
  "nth_command 3 (startup_commands s) = Some (0, [Tx 0x02, Tx 0x60, Tx 0x60]) \<and>
   registers_written (exchanges (nth_command 3 (startup_commands s))) = [(0x60, 0x60)]"
  by (simp add: startup_command_3)

subsection \<open>Determinism of the handler\<close>

text \<open>
  C9. A run of the handler changes nothing of the state but the trace, to which it adds
  events, and the events it adds are the same from any two states \<open>s\<close> and \<open>s'\<close> when the
  received byte \<open>rx\<close> is the same. So the bytes sent and the payload depend on \<open>rx\<close> alone
  and nothing is carried from one run to the next.
\<close>

theorem handler_stateless:
  "ISR_INT0 rx s = s\<lparr>trace := trace s @ new_events s (ISR_INT0 rx s)\<rparr> \<and>
   new_events s (ISR_INT0 rx s) = new_events s' (ISR_INT0 rx s')"
  by (simp add: ISR_INT0_eq)

subsection \<open>Interrupts come after the configuration\<close>

text \<open>
  C10. In every configuration the system can reach, \<^verbatim>\<open>main\<close> has executed at most all of
  its statements, and:
  \<^item> while global interrupts are disabled, the transport has seen only a beginning of the
    startup sequence, so no run of the handler has happened;
  \<^item> once they are enabled, the transport has seen the whole startup sequence of five
    commands and after it only whole runs of the handler, and the next statement of
    \<^verbatim>\<open>main\<close>, if there is one left before the final loop, makes no transport call.
\<close>

theorem interrupts_after_configuration:
  "reachable (pc, s) \<Longrightarrow>
    pc \<le> length main_body \<and>
    (if SREG_I s
     then (\<exists>rxs. bus (trace s) = startup_bus @ concat (map handler_bus rxs)) \<and>
       (if pc < length main_body then bus (trace ((main_body ! pc) s)) = bus (trace s)
        else pc = length main_body)
     else prefix (bus (trace s)) startup_bus)"
proof -
  assume "reachable (pc, s)"
  then have i: "startup_inv (pc, s)" by (rule reachable_inv)
  show ?thesis
  proof (cases "pc \<le> 37")
    case True
    with i have s: "s = run (take pc main_body) reset_state"
      by (simp add: startup_inv_def sei_at_eq)
    with True have "\<not> SREG_I s" by (simp add: before_sei_off)
    with s True show ?thesis
      by (simp add: during_startup_prefix length_main_body)
  next
    case False
    with i have "SREG_I s" "pc \<le> 39"
      and "\<exists>rxs. bus (trace s) = startup_bus @ concat (map handler_bus rxs)"
      by (auto simp: startup_inv_def sei_at_eq length_main_body)
    moreover from False \<open>pc \<le> 39\<close> have "pc = 38 \<or> pc = 39" by linarith
    ultimately show ?thesis
      by (auto simp: length_main_body main_body_last call_defs bus_def)
  qed
qed

text \<open>
  The configuration in which \<^verbatim>\<open>main\<close> is in its loop and the handler has run once, for
  the received byte \<^verbatim>\<open>0x10\<close>, is reachable; there the transport has seen the startup
  sequence and then that run of the handler.
\<close>

theorem interrupts_after_configuration_witness:
  "reachable (length main_body, ISR_INT0 0x10 (main_startup reset_state)) \<and>
   SREG_I (ISR_INT0 0x10 (main_startup reset_state)) \<and>
   (\<exists>rxs. bus (trace (ISR_INT0 0x10 (main_startup reset_state)))
       = startup_bus @ concat (map handler_bus rxs))"
proof -
  have "reachable (length main_body, ISR_INT0 0x10 (main_startup reset_state))"
    by (rule int0 [OF reachable_main_startup])
      (simp_all add: main_startup_eq reset_state_def INT0_def)
  with interrupts_after_configuration [OF this] show ?thesis
    by (simp add: SREG_I_ISR_INT0 main_startup_eq)
qed

end
